theory Spec2Isabelle
  imports Complex_Main
begin

section \<open>JavaScript numbers\<close>

text \<open>
  The scheduling engine of the web application lives in
  \<^verbatim>\<open>times-tables-web/src/lib/spaced-rep.ts\<close>. Its numeric fields are JavaScript
  numbers. The stored fields (ease factor, interval) are modelled as exact reals: IEEE
  rounding and overflow of the stored values are not modelled. The response time comes
  straight from the request body, so it is modelled with the special values a
  JavaScript number can hold, and the comparisons \<^verbatim>\<open><\<close> and \<^verbatim>\<open><=\<close> are those of the
  language: every comparison with NaN is false.
\<close>

datatype number = Fin real | PosInf | NegInf | NaN

fun num_less :: "number \<Rightarrow> number \<Rightarrow> bool" where
  "num_less NaN _ = False"
| "num_less _ NaN = False"
| "num_less (Fin x) (Fin y) = (x < y)"
| "num_less NegInf NegInf = False"
| "num_less NegInf _ = True"
| "num_less _ NegInf = False"
| "num_less PosInf _ = False"
| "num_less _ PosInf = True"

fun num_le :: "number \<Rightarrow> number \<Rightarrow> bool" where
  "num_le NaN _ = False"
| "num_le _ NaN = False"
| "num_le (Fin x) (Fin y) = (x \<le> y)"
| "num_le NegInf _ = True"
| "num_le _ PosInf = True"
| "num_le PosInf _ = False"
| "num_le _ NegInf = False"

text \<open>
  \<^verbatim>\<open>new Date(v)\<close> for a finite number \<open>v\<close>: the time value is \<open>v\<close> truncated towards
  zero, and the date is invalid (\<open>None\<close>) beyond 8.64e15 milliseconds.
\<close>

definition TimeClip :: "real \<Rightarrow> int option" where
  "TimeClip v =
     (if \<bar>v\<bar> > 8640000000000000 then None
      else Some (if 0 \<le> v then \<lfloor>v\<rfloor> else \<lceil>v\<rceil>))"

text \<open>
  \<^verbatim>\<open>xs.slice(start, stop)\<close> on integer arguments: a negative index counts from the end
  of the array, and both indices are clamped to the array.
\<close>

definition slice :: "'a list \<Rightarrow> int \<Rightarrow> int \<Rightarrow> 'a list" where
  "slice xs start stop =
     (let len = int (length xs);
          k = (if start < 0 then max (len + start) 0 else min start len);
          final = (if stop < 0 then max (len + stop) 0 else min stop len)
      in take (nat (final - k)) (drop (nat k) xs))"

section \<open>Data model\<close>

definition TABLE_ORDER :: "int list" where
  "TABLE_ORDER = [1, 10, 5, 11, 2, 3, 9, 4, 6, 7, 8, 12]"

datatype problem = Problem int int

text \<open>
  The object returned by \<open>calculateNewStats\<close>, and the row of the progress table that
  extends it with the two factors. \<open>nextReview\<close> is the time value of a Date in
  milliseconds, \<open>None\<close> for an invalid Date.
\<close>

record stats =
  easeFactor :: real
  intervalDays :: real
  nextReview :: "int option"
  timesCorrect :: int
  timesWrong :: int
  consecutiveCorrect :: int

record progress = stats +
  problemA :: int
  problemB :: int

section \<open>Unlock determination and mastery\<close>

definition getUnlockedTableSet :: "int \<Rightarrow> int set" where
  "getUnlockedTableSet unlockedTables = set (slice TABLE_ORDER 0 unlockedTables)"

definition isProblemUnlocked :: "int \<Rightarrow> int \<Rightarrow> int \<Rightarrow> bool" where
  "isProblemUnlocked a b unlockedTables =
     (let unlocked = getUnlockedTableSet unlockedTables
      in a \<in> unlocked \<and> b \<in> unlocked)"

definition isMastered :: "'a stats_scheme \<Rightarrow> bool" where
  "isMastered s = (consecutiveCorrect s \<ge> 3 \<and> easeFactor s \<ge> 2.0)"

section \<open>Update rule\<close>

text \<open>The latency bonus of lines 89-90.\<close>

definition easeBonus :: "number \<Rightarrow> real" where
  "easeBonus responseSecs =
     (if num_less responseSecs (Fin 3) then 0.15
      else if num_le responseSecs (Fin 8) then 0.1 else 0.05)"

text \<open>
  \<open>calculateNewStats\<close>; the reading of the clock (\<^verbatim>\<open>Date.now()\<close>) is the explicit
  argument \<open>now\<close>, in milliseconds.
\<close>

definition calculateNewStats :: "int \<Rightarrow> 'a stats_scheme \<Rightarrow> bool \<Rightarrow> number \<Rightarrow> stats" where
  "calculateNewStats now current correct responseSecs =
     (if correct then
        (let timesCorrect' = timesCorrect current + 1;
             consecutiveCorrect' = consecutiveCorrect current + 1;
             intervalDays' =
               (if intervalDays current = 0 then 1
                else if intervalDays current < 1 then 1
                else intervalDays current * easeFactor current);
             easeFactor' = min 3.0 (easeFactor current + easeBonus responseSecs)
         in \<lparr>easeFactor = easeFactor',
             intervalDays = intervalDays',
             nextReview = TimeClip (real_of_int now + intervalDays' * 86400 * 1000),
             timesCorrect = timesCorrect',
             timesWrong = timesWrong current,
             consecutiveCorrect = consecutiveCorrect'\<rparr>)
      else
        (let timesWrong' = timesWrong current + 1;
             consecutiveCorrect' = 0;
             intervalDays' = 0;
             easeFactor' = max 1.3 (easeFactor current - 0.2)
         in \<lparr>easeFactor = easeFactor',
             intervalDays = intervalDays',
             nextReview = TimeClip (real_of_int now + intervalDays' * 86400 * 1000),
             timesCorrect = timesCorrect current,
             timesWrong = timesWrong',
             consecutiveCorrect = consecutiveCorrect'\<rparr>))"

section \<open>Unlock policy\<close>

definition shouldUnlockNextTable :: "'a progress_scheme list \<Rightarrow> int \<Rightarrow> bool" where
  "shouldUnlockNextTable progressList unlockedTables =
     (if unlockedTables \<ge> int (length TABLE_ORDER) then False
      else
        (let unlockedProblems =
               filter (\<lambda>p. isProblemUnlocked (problemA p) (problemB p) unlockedTables)
                 progressList
         in if length unlockedProblems = 0 then False
            else
              (let masteredCount = length (filter isMastered unlockedProblems)
               in real masteredCount \<ge> (real (length unlockedProblems) * 3) / 4)))"

section \<open>Selector\<close>

text \<open>
  \<^verbatim>\<open>new Date(p.nextReview) <= now\<close>: a comparison with an invalid Date is false.
\<close>

definition isDue :: "int \<Rightarrow> 'a stats_scheme \<Rightarrow> bool" where
  "isDue now p = (case nextReview p of None \<Rightarrow> False | Some t \<Rightarrow> t \<le> now)"

text \<open>
  \<^verbatim>\<open>lastProblem && p.problemA === lastProblem.a && p.problemB === lastProblem.b\<close>,
  with \<open>None\<close> for an omitted \<open>lastProblem\<close>.
\<close>

definition isLastProblem :: "problem option \<Rightarrow> 'a progress_scheme \<Rightarrow> bool" where
  "isLastProblem lastProblem p =
     (case lastProblem of
        None \<Rightarrow> False
      | Some (Problem a b) \<Rightarrow> problemA p = a \<and> problemB p = b)"

text \<open>The candidate list of lines 145-159: the due problems, or all unlocked ones.\<close>

definition candidates :: "int \<Rightarrow> 'a progress_scheme list \<Rightarrow> int \<Rightarrow> problem option
    \<Rightarrow> 'a progress_scheme list" where
  "candidates now progressList unlockedTables lastProblem =
     (let cs = filter (\<lambda>p. isProblemUnlocked (problemA p) (problemB p) unlockedTables \<and>
                          isDue now p \<and> \<not> isLastProblem lastProblem p) progressList
      in if length cs = 0
         then filter (\<lambda>p. isProblemUnlocked (problemA p) (problemB p) unlockedTables \<and>
                          \<not> isLastProblem lastProblem p) progressList
         else cs)"

text \<open>
  Lines 161-167. \<^verbatim>\<open>Array.prototype.sort\<close> is a stable sort, and the comparator
  \<^verbatim>\<open>a.easeFactor - b.easeFactor\<close> orders by ease factor, so the sorted array is the
  stable sort of the candidates by that key.
\<close>

definition selectNextProblem :: "int \<Rightarrow> 'a progress_scheme list \<Rightarrow> int \<Rightarrow> problem option
    \<Rightarrow> problem option" where
  "selectNextProblem now progressList unlockedTables lastProblem =
     (let cs = candidates now progressList unlockedTables lastProblem
      in if length cs = 0 then None
         else
           (let selected = hd (sort_key easeFactor cs)
            in Some (Problem (problemA selected) (problemB selected))))"

section \<open>The answer route\<close>

text \<open>
  The part of the \<^verbatim>\<open>POST\<close> handler of \<^verbatim>\<open>api/answer/route.ts\<close> up to the update of
  the progress row (lines 13-44). The session is the user id when there is one, the
  progress table is a map from (user, a, b) to rows, and the result is the error
  response or the new stats written to the row.
\<close>

datatype error = Unauthorized | ProblemNotFound

definition answer_POST :: "string option \<Rightarrow> (string \<times> int \<times> int \<rightharpoonup> progress)
    \<Rightarrow> int \<Rightarrow> int \<Rightarrow> int \<Rightarrow> number \<Rightarrow> int \<Rightarrow> error + stats" where
  "answer_POST session table a b userAnswer responseSecs now =
     (case session of
        None \<Rightarrow> Inl Unauthorized
      | Some userId \<Rightarrow>
          (let correctAnswer = a * b;
               correct = (userAnswer = correctAnswer)
           in case table (userId, a, b) of
                None \<Rightarrow> Inl ProblemNotFound
              | Some current \<Rightarrow> Inr (calculateNewStats now current correct responseSecs)))"

section \<open>Reachable states\<close>

text \<open>
  Modelled from the spec: the defaults of a new progress row (the database schema is
  not part of the sources): ease factor 2.5, interval 0, all counters 0, due at once.
\<close>

definition initialStats :: "int \<Rightarrow> stats" where
  "initialStats now =
     \<lparr>easeFactor = 2.5, intervalDays = 0, nextReview = Some now,
      timesCorrect = 0, timesWrong = 0, consecutiveCorrect = 0\<rparr>"

text \<open>
  A history of answers to one fact: each answer is the clock reading, the correctness
  flag and the response time; the update rule is applied from left to right.
\<close>

definition applyAnswers :: "stats \<Rightarrow> (int \<times> bool \<times> number) list \<Rightarrow> stats" where
  "applyAnswers s answers =
     foldl (\<lambda>s (now, correct, responseSecs). calculateNewStats now s correct responseSecs)
       s answers"

section \<open>The update rule of the specification\<close>

text \<open>
  The update rule as section 4.4 of the specification words it, on the fact state of
  the specification's data model (without the review date), for comparison with
  \<open>calculateNewStats\<close>.
\<close>

record fact_state =
  ease_factor :: real
  interval_days :: real
  times_correct :: int
  times_wrong :: int
  consecutive_correct :: int

definition fact_state_of :: "'a stats_scheme \<Rightarrow> fact_state" where
  "fact_state_of s =
     \<lparr>ease_factor = easeFactor s, interval_days = intervalDays s,
      times_correct = timesCorrect s, times_wrong = timesWrong s,
      consecutive_correct = consecutiveCorrect s\<rparr>"

definition spec_bonus :: "number \<Rightarrow> real" where
  "spec_bonus response_seconds =
     (if num_less response_seconds (Fin 3) then 0.15
      else if num_le (Fin 3) response_seconds \<and> num_le response_seconds (Fin 8) then 0.10
      else 0.05)"

definition spec_apply_answer :: "fact_state \<Rightarrow> bool \<Rightarrow> number \<Rightarrow> fact_state" where
  "spec_apply_answer st correct response_seconds =
     (if correct then
        \<lparr>ease_factor = min 3.0 (ease_factor st + spec_bonus response_seconds),
         interval_days =
           (if interval_days st < 1 then 1 else interval_days st * ease_factor st),
         times_correct = times_correct st + 1,
         times_wrong = times_wrong st,
         consecutive_correct = consecutive_correct st + 1\<rparr>
      else
        \<lparr>ease_factor = max 1.3 (ease_factor st - 0.2),
         interval_days = 0,
         times_correct = times_correct st,
         times_wrong = times_wrong st + 1,
         consecutive_correct = 0\<rparr>)"

section \<open>Example rows\<close>

text \<open>A progress row for the fact (a, b) with a given ease factor and review date.\<close>

definition row :: "int \<Rightarrow> int \<Rightarrow> real \<Rightarrow> int option \<Rightarrow> progress" where
  "row a b ease review =
     \<lparr>easeFactor = ease, intervalDays = 0, nextReview = review,
      timesCorrect = 0, timesWrong = 0, consecutiveCorrect = 0,
      problemA = a, problemB = b\<rparr>"

section \<open>Auxiliary facts\<close>

lemma slice_0_nat: "slice xs 0 (int k) = take k xs"
  by (simp add: slice_def Let_def min_def)

lemma isProblemUnlocked_nat:
  "isProblemUnlocked a b (int k) \<longleftrightarrow>
     a \<in> set (take k TABLE_ORDER) \<and> b \<in> set (take k TABLE_ORDER)"
  by (simp add: isProblemUnlocked_def getUnlockedTableSet_def slice_0_nat Let_def)

text \<open>
  Outside the data model, where the count is negative, \<^verbatim>\<open>slice\<close> counts from the end
  of the table order: \<open>-1\<close> opens the first eleven tables.
\<close>

lemma isProblemUnlocked_negative_count:
  "isProblemUnlocked 1 1 (- 1) \<and> \<not> isProblemUnlocked 1 1 0"
  by (simp add: isProblemUnlocked_def getUnlockedTableSet_def slice_def TABLE_ORDER_def)

lemma isLastProblem_iff:
  "isLastProblem lastProblem p \<longleftrightarrow> lastProblem = Some (Problem (problemA p) (problemB p))"
  by (auto simp: isLastProblem_def split: option.splits problem.splits)

lemma isDue_iff: "isDue now p \<longleftrightarrow> (\<exists>t. nextReview p = Some t \<and> t \<le> now)"
  by (auto simp: isDue_def split: option.splits)

lemma easeBonus_spec: "easeBonus r = spec_bonus r"
  by (cases r) (auto simp: easeBonus_def spec_bonus_def)

lemma easeBonus_range: "0.05 \<le> easeBonus r \<and> easeBonus r \<le> 0.15"
  by (simp add: easeBonus_def)

lemma find_filter_conv:
  "find P xs = (case filter P xs of [] \<Rightarrow> None | x # _ \<Rightarrow> Some x)"
  by (induction xs) auto

text \<open>
  The head of a stable sort is the first element, in the order of the input, whose key
  is minimal.
\<close>

lemma hd_sort_key_min:
  assumes "xs \<noteq> []"
  shows "hd (sort_key f xs) \<in> set xs"
    and "\<forall>r\<in>set xs. f (hd (sort_key f xs)) \<le> f r"
    and "find (\<lambda>q. \<forall>r\<in>set xs. f q \<le> f r) xs = Some (hd (sort_key f xs))"
proof -
  let ?ys = "sort_key f xs"
  let ?m = "hd ?ys"
  from assms have ne: "?ys \<noteq> []"
    by (metis length_sort length_0_conv)
  then obtain zs where ys: "?ys = ?m # zs"
    by (cases ?ys) auto
  have srt: "sorted (map f ?ys)" by simp
  have "?m \<in> set ?ys" using ne by (rule hd_in_set)
  then show mem: "?m \<in> set xs" by (simp only: set_sort)
  have "sorted (map f (?m # zs))" using srt ys by simp
  then have "\<forall>y\<in>set (?m # zs). f ?m \<le> f y" by auto
  then have "\<forall>y\<in>set ?ys. f ?m \<le> f y" using ys by simp
  then show low: "\<forall>r\<in>set xs. f ?m \<le> f r" by (simp only: set_sort)
  have "filter (\<lambda>y. f y = f ?m) ?ys = ?m # filter (\<lambda>y. f y = f ?m) zs"
    using ys by (metis (mono_tags, lifting) filter.simps(2))
  then have st: "filter (\<lambda>y. f y = f ?m) xs = ?m # filter (\<lambda>y. f y = f ?m) zs"
    by (simp add: sort_key_stable)
  have "filter (\<lambda>q. \<forall>r\<in>set xs. f q \<le> f r) xs = filter (\<lambda>y. f y = f ?m) xs"
  proof (rule filter_cong[OF refl])
    fix q assume "q \<in> set xs"
    with low mem show "(\<forall>r\<in>set xs. f q \<le> f r) = (f q = f ?m)"
      by (metis order_antisym)
  qed
  with st show "find (\<lambda>q. \<forall>r\<in>set xs. f q \<le> f r) xs = Some ?m"
    by (simp add: find_filter_conv)
qed

lemma selectNextProblem_in_candidates:
  assumes ne: "candidates now pl u lastProblem \<noteq> []"
  shows "\<exists>p\<in>set (candidates now pl u lastProblem).
           selectNextProblem now pl u lastProblem = Some (Problem (problemA p) (problemB p))"
proof -
  let ?cs = "candidates now pl u lastProblem"
  let ?p = "hd (sort_key easeFactor ?cs)"
  have "sort_key easeFactor ?cs \<noteq> []"
    using ne by (metis length_sort length_0_conv)
  then have "?p \<in> set (sort_key easeFactor ?cs)" by (rule hd_in_set)
  then have "?p \<in> set ?cs" by (simp only: set_sort)
  moreover have "selectNextProblem now pl u lastProblem =
      Some (Problem (problemA ?p) (problemB ?p))"
    using ne by (simp add: selectNextProblem_def Let_def)
  ultimately show ?thesis by blast
qed

lemma calculateNewStats_ease_bounds:
  assumes "1.3 \<le> easeFactor s" and "easeFactor s \<le> 3.0"
  shows "1.3 \<le> easeFactor (calculateNewStats now s c r)"
    and "easeFactor (calculateNewStats now s c r) \<le> 3.0"
  using assms easeBonus_range[of r]
  by (auto simp: calculateNewStats_def Let_def min_def max_def)

lemma calculateNewStats_interval_nonneg:
  assumes "0 \<le> easeFactor s"
  shows "0 \<le> intervalDays (calculateNewStats now s c r)"
  using assms by (auto simp: calculateNewStats_def Let_def)

lemma applyAnswers_snoc:
  "applyAnswers s (xs @ [(now, c, r)]) = calculateNewStats now (applyAnswers s xs) c r"
  by (simp add: applyAnswers_def)

lemma applyAnswers_ease_bounds:
  "1.3 \<le> easeFactor s \<Longrightarrow> easeFactor s \<le> 3.0 \<Longrightarrow>
   1.3 \<le> easeFactor (applyAnswers s xs) \<and> easeFactor (applyAnswers s xs) \<le> 3.0"
proof (induction xs rule: rev_induct)
  case Nil
  then show ?case by (simp add: applyAnswers_def)
next
  case (snoc x xs)
  obtain now c r where x: "x = (now, c, r)" by (cases x) auto
  from snoc have "1.3 \<le> easeFactor (applyAnswers s xs)"
    and "easeFactor (applyAnswers s xs) \<le> 3.0" by simp_all
  then show ?case
    unfolding x applyAnswers_snoc
    using calculateNewStats_ease_bounds by blast
qed

section \<open>Validation of the response time\<close>

text \<open>
  Claim C1, as amended. The specification asks that a negative or non-finite response
  time be rejected with a validation error before the update rule runs. The code has no
  such check: the answer route rejects a request only when there is no session or no
  progress row for the problem, whatever the response time is; for a negative or
  non-finite response time of a known problem the update rule runs and its result is
  the new state.
\<close>

theorem answer_POST_no_latency_validation:
  "(answer_POST session table a b userAnswer r now = Inl e \<longleftrightarrow>
      (session = None \<and> e = Unauthorized) \<or>
      (\<exists>userId. session = Some userId \<and> table (userId, a, b) = None \<and>
         e = ProblemNotFound)) \<and>
   (num_less r (Fin 0) \<or> r = NaN \<or> r = PosInf \<or> r = NegInf \<longrightarrow>
      session = Some userId \<longrightarrow> table (userId, a, b) = Some current \<longrightarrow>
      answer_POST session table a b userAnswer r now =
        Inr (calculateNewStats now current (userAnswer = a * b) r))"
  by (cases e) (auto simp: answer_POST_def Let_def split: option.splits)

text \<open>The theorem at a NaN response time, with and without a session.\<close>

theorem answer_POST_no_latency_validation_witness:
  "answer_POST (Some ''u'') [(''u'', 1, 1) \<mapsto> row 1 1 2.5 (Some 0)] 1 1 1 NaN 0 =
     Inr (calculateNewStats 0 (row 1 1 2.5 (Some 0)) True NaN) \<and>
   answer_POST None [(''u'', 1, 1) \<mapsto> row 1 1 2.5 (Some 0)] 1 1 1 NaN 0 = Inl Unauthorized"
  using answer_POST_no_latency_validation[of "Some ''u''"
      "[(''u'', 1, 1) \<mapsto> row 1 1 2.5 (Some 0)]" 1 1 1 NaN 0 Unauthorized "''u''"
      "row 1 1 2.5 (Some 0)"]
    answer_POST_no_latency_validation[of None
      "[(''u'', 1, 1) \<mapsto> row 1 1 2.5 (Some 0)]" 1 1 1 NaN 0 Unauthorized]
  by simp

text \<open>
  Claim C1 as stated fails: a correct answer to 1 x 1 with a response time of -5
  seconds is accepted, counted as a fast answer, and a new state is produced.
\<close>

theorem answer_POST_accepts_negative_latency:
  "answer_POST (Some ''u'') [(''u'', 1, 1) \<mapsto> row 1 1 2.5 (Some 0)] 1 1 1 (Fin (- 5)) 0 =
     Inr \<lparr>easeFactor = 2.65, intervalDays = 1, nextReview = Some 86400000,
          timesCorrect = 1, timesWrong = 0, consecutiveCorrect = 1\<rparr>"
  by (simp add: answer_POST_def calculateNewStats_def easeBonus_def row_def TimeClip_def)

section \<open>Selection\<close>

text \<open>
  Claim C2, as amended. For a non-empty candidate list, \<open>selectNextProblem\<close> returns a
  candidate with the lowest ease factor; among candidates with that same ease factor
  it returns the one that comes first in the candidate list, which keeps the order of
  the progress list. There is no tie-break on the pair (a, b).
\<close>

theorem selectNextProblem_lowest_ease_first_listed:
  assumes "candidates now pl u lastProblem \<noteq> []"
  shows "\<exists>p\<in>set (candidates now pl u lastProblem).
           selectNextProblem now pl u lastProblem =
             Some (Problem (problemA p) (problemB p)) \<and>
           (\<forall>q\<in>set (candidates now pl u lastProblem). easeFactor p \<le> easeFactor q) \<and>
           find (\<lambda>q. \<forall>r\<in>set (candidates now pl u lastProblem).
                        easeFactor q \<le> easeFactor r)
             (candidates now pl u lastProblem) = Some p"
proof -
  let ?cs = "candidates now pl u lastProblem"
  let ?p = "hd (sort_key easeFactor ?cs)"
  have "selectNextProblem now pl u lastProblem = Some (Problem (problemA ?p) (problemB ?p))"
    using assms by (simp add: selectNextProblem_def Let_def)
  with hd_sort_key_min[OF assms, of easeFactor] show ?thesis by blast
qed

text \<open>
  Three due, unlocked rows: the two hardest have the same ease factor, and the one
  listed first, (10, 1), is selected.
\<close>

theorem selectNextProblem_lowest_ease_first_listed_witness:
  "selectNextProblem 0
     [row 1 1 2.5 (Some 0), row 10 1 2.0 (Some 0), row 1 10 2.0 (Some 0)] 2 None
     = Some (Problem 10 1)"
proof -
  let ?pl = "[row 1 1 2.5 (Some 0), row 10 1 2.0 (Some 0), row 1 10 2.0 (Some 0)]"
  have cs: "candidates 0 ?pl 2 None = ?pl"
    by (simp add: candidates_def isDue_def isLastProblem_def row_def
        isProblemUnlocked_def getUnlockedTableSet_def slice_def TABLE_ORDER_def)
  then have ne: "candidates 0 ?pl 2 None \<noteq> []" by simp
  from selectNextProblem_lowest_ease_first_listed[OF ne] show ?thesis
    unfolding cs by (auto simp: row_def)
qed

text \<open>
  Claim C2 as stated fails: with equal ease factors for (10, 1) and (1, 10) the result
  is the row listed first, so it is (10, 1) for one order of the progress list and
  (1, 10) for the other, and not always the lexicographically smallest pair.
\<close>

theorem selectNextProblem_tie_follows_input_order:
  "selectNextProblem 0 [row 10 1 2.5 (Some 0), row 1 10 2.5 (Some 0)] 2 None
     = Some (Problem 10 1) \<and>
   selectNextProblem 0 [row 1 10 2.5 (Some 0), row 10 1 2.5 (Some 0)] 2 None
     = Some (Problem 1 10)"
  by (simp add: selectNextProblem_def candidates_def isDue_def isLastProblem_def row_def
      isProblemUnlocked_def getUnlockedTableSet_def slice_def TABLE_ORDER_def)

text \<open>
  Claim C8. With C1 the due, unlocked rows other than the last problem and C2 the
  unlocked rows other than the last problem, \<open>selectNextProblem\<close> returns the problem of
  a row of C1 when C1 is not empty, of a row of C2 when C1 is empty and C2 is not, and
  nothing when both are empty; in particular it returns nothing when every unlocked
  row is the last problem.
\<close>

theorem selectNextProblem_candidate_fallback:
  "(let C1 = filter (\<lambda>p. isProblemUnlocked (problemA p) (problemB p) u \<and>
                         (\<exists>t. nextReview p = Some t \<and> t \<le> now) \<and>
                         lastProblem \<noteq> Some (Problem (problemA p) (problemB p))) pl;
        C2 = filter (\<lambda>p. isProblemUnlocked (problemA p) (problemB p) u \<and>
                         lastProblem \<noteq> Some (Problem (problemA p) (problemB p))) pl
    in (C1 \<noteq> [] \<longrightarrow>
          (\<exists>p\<in>set C1. selectNextProblem now pl u lastProblem =
             Some (Problem (problemA p) (problemB p)))) \<and>
       (C1 = [] \<and> C2 \<noteq> [] \<longrightarrow>
          (\<exists>p\<in>set C2. selectNextProblem now pl u lastProblem =
             Some (Problem (problemA p) (problemB p)))) \<and>
       (C1 = [] \<and> C2 = [] \<longrightarrow> selectNextProblem now pl u lastProblem = None)) \<and>
   ((\<forall>p\<in>set pl. isProblemUnlocked (problemA p) (problemB p) u \<longrightarrow>
        problemA p = a \<and> problemB p = b) \<longrightarrow>
      selectNextProblem now pl u (Some (Problem a b)) = None)"
proof -
  let ?C1 = "filter (\<lambda>p. isProblemUnlocked (problemA p) (problemB p) u \<and>
                         (\<exists>t. nextReview p = Some t \<and> t \<le> now) \<and>
                         lastProblem \<noteq> Some (Problem (problemA p) (problemB p))) pl"
  let ?C2 = "filter (\<lambda>p. isProblemUnlocked (problemA p) (problemB p) u \<and>
                         lastProblem \<noteq> Some (Problem (problemA p) (problemB p))) pl"
  have cs: "candidates now pl u lastProblem = (if ?C1 = [] then ?C2 else ?C1)"
    by (simp add: candidates_def Let_def isLastProblem_iff isDue_iff)
  have 1: "\<exists>p\<in>set ?C1. selectNextProblem now pl u lastProblem =
             Some (Problem (problemA p) (problemB p))" if "?C1 \<noteq> []"
    using selectNextProblem_in_candidates[of now pl u lastProblem] that
    unfolding cs by simp
  have 2: "\<exists>p\<in>set ?C2. selectNextProblem now pl u lastProblem =
             Some (Problem (problemA p) (problemB p))" if "?C1 = []" "?C2 \<noteq> []"
    using selectNextProblem_in_candidates[of now pl u lastProblem] that
    unfolding cs by simp
  have 3: "selectNextProblem now pl u lastProblem = None" if "?C1 = []" "?C2 = []"
    using that by (simp add: selectNextProblem_def cs)
  have 4: "selectNextProblem now pl u (Some (Problem a b)) = None"
    if h: "\<forall>p\<in>set pl. isProblemUnlocked (problemA p) (problemB p) u \<longrightarrow>
        problemA p = a \<and> problemB p = b"
  proof -
    have "candidates now pl u (Some (Problem a b)) = []"
      using h by (auto simp: candidates_def Let_def isLastProblem_def filter_empty_conv)
    then show ?thesis by (simp add: selectNextProblem_def)
  qed
  from 1 2 3 4 show ?thesis unfolding Let_def by blast
qed

text \<open>
  One due row; no due row and one row left after the last problem is set aside; and a
  single unlocked row that is the last problem.
\<close>

theorem selectNextProblem_candidate_fallback_witness:
  "selectNextProblem 5 [row 1 1 2.5 (Some 9), row 1 10 2.5 (Some 3), row 2 2 1.3 (Some 0)] 2 None
     = Some (Problem 1 10) \<and>
   selectNextProblem 5 [row 1 1 2.5 (Some 9), row 1 10 2.5 (Some 9), row 2 2 1.3 (Some 0)] 2
     (Some (Problem 1 10)) = Some (Problem 1 1) \<and>
   selectNextProblem 5 [row 1 1 2.5 (Some 0), row 2 2 1.3 (Some 0)] 1 (Some (Problem 1 1)) = None"
  using selectNextProblem_candidate_fallback[of 2 5 None
      "[row 1 1 2.5 (Some 9), row 1 10 2.5 (Some 3), row 2 2 1.3 (Some 0)]" 1 1]
    selectNextProblem_candidate_fallback[of 2 5 "Some (Problem 1 10)"
      "[row 1 1 2.5 (Some 9), row 1 10 2.5 (Some 9), row 2 2 1.3 (Some 0)]" 1 1]
    selectNextProblem_candidate_fallback[of 1 5 "Some (Problem 1 1)"
      "[row 1 1 2.5 (Some 0), row 2 2 1.3 (Some 0)]" 1 1]
  by (simp add: row_def isProblemUnlocked_def getUnlockedTableSet_def slice_def TABLE_ORDER_def)

section \<open>The update rule\<close>

text \<open>
  Claim C3. On the fields of the specification's fact state, \<open>calculateNewStats\<close> is the
  update rule of section 4.4 for every state, flag and response time; from ease 2.5 and
  interval 5 a correct answer in 10 seconds gives interval 12.5 and ease 2.55; from ease
  1.4 a wrong answer gives ease 1.3, interval 0 and no consecutive correct answers.
\<close>

theorem calculateNewStats_refines_spec_apply_answer:
  "fact_state_of (calculateNewStats now s correct r) =
     spec_apply_answer (fact_state_of s) correct r \<and>
   intervalDays (calculateNewStats now (s\<lparr>easeFactor := 2.5, intervalDays := 5\<rparr>) True
     (Fin 10)) = 12.5 \<and>
   easeFactor (calculateNewStats now (s\<lparr>easeFactor := 2.5, intervalDays := 5\<rparr>) True
     (Fin 10)) = 2.55 \<and>
   easeFactor (calculateNewStats now (s\<lparr>easeFactor := 1.4\<rparr>) False r) = 1.3 \<and>
   intervalDays (calculateNewStats now (s\<lparr>easeFactor := 1.4\<rparr>) False r) = 0 \<and>
   consecutiveCorrect (calculateNewStats now (s\<lparr>easeFactor := 1.4\<rparr>) False r) = 0"
  by (simp add: calculateNewStats_def spec_apply_answer_def fact_state_of_def
      easeBonus_spec Let_def)
    (simp add: spec_bonus_def easeBonus_def)

text \<open>From the initial state, a correct answer in 2 seconds: interval 1, ease 2.65.\<close>

theorem calculateNewStats_refines_spec_apply_answer_witness:
  "fact_state_of (calculateNewStats 0 (initialStats 0) True (Fin 2)) =
     \<lparr>ease_factor = 2.65, interval_days = 1, times_correct = 1, times_wrong = 0,
      consecutive_correct = 1\<rparr>"
  using calculateNewStats_refines_spec_apply_answer[of 0 "initialStats 0" True "Fin 2"]
  by (simp add: spec_apply_answer_def fact_state_of_def initialStats_def spec_bonus_def)

text \<open>
  Claim C4. Every state reached from the initial state by a finite history of answers,
  with any flags and any response times, has its ease factor within [1.3, 3.0] and a
  non-negative interval, and has no consecutive correct answers when the last answer
  was wrong.
\<close>

theorem reachable_stats_invariant:
  "(let s = applyAnswers (initialStats t0) answers
    in 1.3 \<le> easeFactor s \<and> easeFactor s \<le> 3.0 \<and> 0 \<le> intervalDays s \<and>
       (answers \<noteq> [] \<and> \<not> fst (snd (last answers)) \<longrightarrow> consecutiveCorrect s = 0))"
proof -
  let ?s = "applyAnswers (initialStats t0) answers"
  have e: "1.3 \<le> easeFactor ?s \<and> easeFactor ?s \<le> 3.0"
    by (rule applyAnswers_ease_bounds) (simp_all add: initialStats_def)
  have i: "0 \<le> intervalDays ?s"
  proof (cases answers rule: rev_cases)
    case Nil
    then show ?thesis by (simp add: applyAnswers_def initialStats_def)
  next
    case (snoc xs x)
    obtain now c r where x: "x = (now, c, r)" by (cases x) auto
    have "1.3 \<le> easeFactor (applyAnswers (initialStats t0) xs)"
      using applyAnswers_ease_bounds[of "initialStats t0" xs] by (simp add: initialStats_def)
    then have "0 \<le> easeFactor (applyAnswers (initialStats t0) xs)" by simp
    then show ?thesis
      unfolding snoc x applyAnswers_snoc by (rule calculateNewStats_interval_nonneg)
  qed
  have c: "consecutiveCorrect ?s = 0" if "answers \<noteq> []" "\<not> fst (snd (last answers))"
  proof -
    from that(1) obtain xs x where a: "answers = xs @ [x]"
      by (cases answers rule: rev_cases) auto
    obtain now c r where x: "x = (now, c, r)" by (cases x) auto
    from that(2) a x have "\<not> c" by simp
    then show ?thesis
      unfolding a x applyAnswers_snoc by (simp add: calculateNewStats_def)
  qed
  from e i c show ?thesis by (simp add: Let_def)
qed

text \<open>A fast correct answer followed by a wrong answer with a NaN response time.\<close>

theorem reachable_stats_invariant_witness:
  "(let s = applyAnswers (initialStats 0) [(0, True, Fin 2), (1000, False, NaN)]
    in 1.3 \<le> easeFactor s \<and> easeFactor s \<le> 3.0 \<and> 0 \<le> intervalDays s \<and>
       consecutiveCorrect s = 0)"
  using reachable_stats_invariant[of 0 "[(0, True, Fin 2), (1000, False, NaN)]"]
  by (simp add: Let_def)

text \<open>
  Claim C10, as amended. \<open>calculateNewStats\<close> returns a new state for every input, with
  exactly one more answer counted; on a correct answer every negative response time,
  minus infinity included, receives the bonus 0.15, and a NaN or plus infinity
  response time receives the bonus 0.05.
\<close>

theorem calculateNewStats_out_of_domain_latency:
  "timesCorrect (calculateNewStats now s correct r) +
     timesWrong (calculateNewStats now s correct r) = timesCorrect s + timesWrong s + 1 \<and>
   (num_less r (Fin 0) \<longrightarrow>
      easeFactor (calculateNewStats now s True r) = min 3.0 (easeFactor s + 0.15)) \<and>
   (r = NaN \<or> r = PosInf \<longrightarrow>
      easeFactor (calculateNewStats now s True r) = min 3.0 (easeFactor s + 0.05))"
  by (cases r) (auto simp: calculateNewStats_def easeBonus_def Let_def)

text \<open>The four kinds of response time outside the expected domain.\<close>

theorem calculateNewStats_out_of_domain_latency_witness:
  "easeFactor (calculateNewStats 0 (initialStats 0) True (Fin (- 1))) = 2.65 \<and>
   easeFactor (calculateNewStats 0 (initialStats 0) True NegInf) = 2.65 \<and>
   easeFactor (calculateNewStats 0 (initialStats 0) True NaN) = 2.55 \<and>
   easeFactor (calculateNewStats 0 (initialStats 0) True PosInf) = 2.55"
  using calculateNewStats_out_of_domain_latency[of 0 "initialStats 0" True "Fin (- 1)"]
    calculateNewStats_out_of_domain_latency[of 0 "initialStats 0" True NegInf]
    calculateNewStats_out_of_domain_latency[of 0 "initialStats 0" True NaN]
    calculateNewStats_out_of_domain_latency[of 0 "initialStats 0" True PosInf]
  by (simp add: initialStats_def)

text \<open>
  Claim C10 as stated fails at minus infinity, an infinite response time: it is below
  3, so it receives the fast bonus 0.15 and not the slow bonus 0.05.
\<close>

theorem calculateNewStats_neg_infinity_fast_bonus:
  "easeFactor (calculateNewStats 0 (initialStats 0) True NegInf) = 2.65 \<and>
   easeFactor (calculateNewStats 0 (initialStats 0) True NegInf) \<noteq> min 3.0 (2.5 + 0.05)"
  by (simp add: calculateNewStats_def easeBonus_def initialStats_def)

section \<open>Unlocking\<close>

text \<open>
  Claim C5. \<open>shouldUnlockNextTable\<close> is false when the count is at least 12 or when no
  row of the progress list is unlocked; otherwise it is true exactly when the mastered
  fraction of the unlocked rows is at least 0.75.
\<close>

theorem shouldUnlockNextTable_threshold:
  "shouldUnlockNextTable pl u =
     (let U = filter (\<lambda>p. isProblemUnlocked (problemA p) (problemB p) u) pl
      in if u \<ge> 12 \<or> U = [] then False
         else real (length (filter isMastered U)) / real (length U) \<ge> 0.75)"
  by (simp add: shouldUnlockNextTable_def Let_def TABLE_ORDER_def field_simps)

text \<open>
  One mastered row out of one unlocks the next table, except at count 12; one mastered
  row out of two does not.
\<close>

theorem shouldUnlockNextTable_threshold_witness:
  "shouldUnlockNextTable [row 1 1 2.5 None\<lparr>consecutiveCorrect := 3\<rparr>] 1 \<and>
   \<not> shouldUnlockNextTable [row 1 1 2.5 None\<lparr>consecutiveCorrect := 3\<rparr>] 12 \<and>
   \<not> shouldUnlockNextTable
       [row 1 1 2.5 None\<lparr>consecutiveCorrect := 3\<rparr>, row 1 1 2.5 None] 1"
  by (simp add: shouldUnlockNextTable_threshold row_def isMastered_def isProblemUnlocked_def
      getUnlockedTableSet_def slice_def TABLE_ORDER_def)

text \<open>
  Claim C6. For every problem (a, b) and every count k, the problem is unlocked exactly
  when both factors are among the first k entries of the table order
  [1, 10, 5, 11, 2, 3, 9, 4, 6, 7, 8, 12]; with two tables open, (1, 10) and (10, 1) are
  unlocked and (1, 2) is not.
\<close>

theorem isProblemUnlocked_first_entries:
  "TABLE_ORDER = [1, 10, 5, 11, 2, 3, 9, 4, 6, 7, 8, 12] \<and>
   (isProblemUnlocked a b (int k) \<longleftrightarrow>
      a \<in> set (take k TABLE_ORDER) \<and> b \<in> set (take k TABLE_ORDER)) \<and>
   isProblemUnlocked 1 10 2 \<and> isProblemUnlocked 10 1 2 \<and> \<not> isProblemUnlocked 1 2 2"
proof -
  have "isProblemUnlocked 1 10 (int 2)" "isProblemUnlocked 10 1 (int 2)"
    "\<not> isProblemUnlocked 1 2 (int 2)"
    unfolding isProblemUnlocked_nat by (simp_all add: TABLE_ORDER_def)
  then show ?thesis
    by (simp add: isProblemUnlocked_nat) (simp add: TABLE_ORDER_def)
qed

text \<open>With three tables open, 1, 10 and 5: (5, 10) is unlocked and (11, 1) is not.\<close>

theorem isProblemUnlocked_first_entries_witness:
  "isProblemUnlocked 5 10 (int 3) \<and> \<not> isProblemUnlocked 11 1 (int 3)"
proof -
  have "isProblemUnlocked 5 10 (int 3)"
    unfolding isProblemUnlocked_first_entries[of 5 10 3, THEN conjunct2, THEN conjunct1]
    by (simp add: TABLE_ORDER_def)
  moreover have "\<not> isProblemUnlocked 11 1 (int 3)"
    unfolding isProblemUnlocked_first_entries[of 11 1 3, THEN conjunct2, THEN conjunct1]
    by (simp add: TABLE_ORDER_def)
  ultimately show ?thesis by simp
qed

text \<open>
  Claim C9. Unlocking is monotone in the count: a problem that is unlocked with k
  tables open is unlocked with any larger number of tables open.
\<close>

theorem isProblemUnlocked_mono:
  "isProblemUnlocked a b (int k) \<Longrightarrow> k \<le> k' \<Longrightarrow> isProblemUnlocked a b (int k')"
  unfolding isProblemUnlocked_nat
  using set_take_subset_set_take[of k k' TABLE_ORDER] by auto

text \<open>The problem (1, 10), unlocked with two tables open, is unlocked with five.\<close>

theorem isProblemUnlocked_mono_witness:
  "isProblemUnlocked 1 10 (int 2) \<and> (2::nat) \<le> 5 \<and> isProblemUnlocked 1 10 (int 5)"
proof -
  have h: "isProblemUnlocked 1 10 (int 2)"
    by (simp add: isProblemUnlocked_def getUnlockedTableSet_def slice_def TABLE_ORDER_def)
  have l: "(2::nat) \<le> 5" by simp
  from isProblemUnlocked_mono[OF h l] h l show ?thesis by simp
qed

section \<open>Mastery\<close>

text \<open>
  Claim C7. A fact is mastered exactly when it has at least three consecutive correct
  answers and an ease factor of at least 2.0, and after a wrong answer the updated
  state is never mastered.
\<close>

theorem isMastered_iff_and_lost_on_wrong:
  "(isMastered s \<longleftrightarrow> consecutiveCorrect s \<ge> 3 \<and> easeFactor s \<ge> 2.0) \<and>
   \<not> isMastered (calculateNewStats now s False responseSecs)"
  by (simp add: isMastered_def calculateNewStats_def)

text \<open>A mastered row loses its mastery with a wrong answer.\<close>

theorem isMastered_iff_and_lost_on_wrong_witness:
  "isMastered (row 1 1 2.5 None\<lparr>consecutiveCorrect := 3\<rparr>) \<and>
   \<not> isMastered
       (calculateNewStats 0 (row 1 1 2.5 None\<lparr>consecutiveCorrect := 3\<rparr>) False (Fin 1))"
  using isMastered_iff_and_lost_on_wrong[of "row 1 1 2.5 None\<lparr>consecutiveCorrect := 3\<rparr>" 0
      "Fin 1"]
  by (simp add: row_def)

end
